theory Spec2Isabelle
  imports Main
begin

section \<open>The fragment of Python's regular expressions that server.py uses\<close>

text \<open>
  The handler calls \<^verbatim>\<open>re.fullmatch(r"/private/?", self.path)\<close>. The pattern is built from
  literal characters and the postfix operator \<^verbatim>\<open>?\<close> (the character before it is optional),
  so the embedding covers exactly this fragment: a pattern is compiled to a list of items,
  and \<open>re_match\<close> is the backtracking matcher, greedy on an optional item, that succeeds
  only when pattern and string end together, as \<^verbatim>\<open>fullmatch\<close> demands.
  The request path is decoded by the library as ISO-8859-1, one character per byte, which
  is what \<^typ>\<open>char\<close> is.
\<close>

datatype re_item = Lit char | Opt char

fun re_compile :: "string \<Rightarrow> re_item list" where
  "re_compile [] = []"
| "re_compile [c] = [Lit c]"
| "re_compile (c # d # r) =
     (if d = CHR ''?'' then Opt c # re_compile r else Lit c # re_compile (d # r))"

fun re_match :: "re_item list \<Rightarrow> string \<Rightarrow> bool" where
  "re_match [] s = (s = [])"
| "re_match (Lit c # r) s = (case s of [] \<Rightarrow> False | d # t \<Rightarrow> d = c \<and> re_match r t)"
| "re_match (Opt c # r) s =
     ((case s of [] \<Rightarrow> False | d # t \<Rightarrow> d = c \<and> re_match r t) \<or> re_match r s)"

definition re_fullmatch :: "string \<Rightarrow> string \<Rightarrow> bool" where
  "re_fullmatch pattern s = re_match (re_compile pattern) s"

section \<open>The request handler\<close>

text \<open>
  A \<^verbatim>\<open>DemoHandler\<close> instance serves one request. The fields are the attributes the
  source reads: the request method (\<open>command\<close>), the raw request target (\<open>path\<close>, query
  string included), the client address and the directory files are served from. What the
  handler does to the connection is the sequence of calls it makes on the methods it
  inherits; \<open>calls\<close> records them in order.
\<close>

datatype call =
    Send_response nat
  | Send_header string string
  | End_headers
  | Wfile_write string

record handler =
  command :: string
  path :: string
  client_address :: string
  directory :: string
  calls :: "call list"

definition send_response :: "nat \<Rightarrow> 'a handler_scheme \<Rightarrow> 'a handler_scheme" where
  "send_response code self = self\<lparr>calls := calls self @ [Send_response code]\<rparr>"

definition send_header :: "string \<Rightarrow> string \<Rightarrow> 'a handler_scheme \<Rightarrow> 'a handler_scheme" where
  "send_header keyword v self = self\<lparr>calls := calls self @ [Send_header keyword v]\<rparr>"

definition end_headers :: "'a handler_scheme \<Rightarrow> 'a handler_scheme" where
  "end_headers self = self\<lparr>calls := calls self @ [End_headers]\<rparr>"

definition wfile_write :: "string \<Rightarrow> 'a handler_scheme \<Rightarrow> 'a handler_scheme" where
  "wfile_write b self = self\<lparr>calls := calls self @ [Wfile_write b]\<rparr>"

text \<open>
  \<^verbatim>\<open>DemoHandler.do_GET\<close>. The method of the base class that \<^verbatim>\<open>super().do_GET()\<close>
  reaches, \<^verbatim>\<open>SimpleHTTPRequestHandler.do_GET\<close>, belongs to the standard library and is
  the parameter \<open>super_do_GET\<close>.
\<close>

definition do_GET :: "('a handler_scheme \<Rightarrow> 'a handler_scheme) \<Rightarrow> 'a handler_scheme \<Rightarrow> 'a handler_scheme" where
  "do_GET super_do_GET self =
     (if re_fullmatch ''/private/?'' (path self) then
        (let self = send_response 403 self;
             self = send_header ''Content-Type'' ''text/plain; charset=utf-8'' self;
             self = end_headers self
         in wfile_write ''403 Forbidden: Directory listing is disabled.'' self)
      else if path self = ''/health'' then
        (let self = send_response 200 self;
             self = send_header ''Content-Type'' ''text/plain; charset=utf-8'' self;
             self = end_headers self
         in wfile_write ''ok'' self)
      else super_do_GET self)"

text \<open>
  The library's \<^verbatim>\<open>handle_one_request\<close> picks the method to run from the request
  method: it looks the attribute \<^verbatim>\<open>'do_' + self.command\<close> up on the handler and answers
  501 through \<^verbatim>\<open>send_error\<close> when there is none. \<^verbatim>\<open>DemoHandler\<close> defines one such
  attribute of its own, \<^verbatim>\<open>do_GET\<close>; every other name is looked up in the base class.
  The base class's methods are the fields of \<open>library\<close>.
\<close>

record 'h library =
  base_do_GET :: "'h \<Rightarrow> 'h"
  base_do_other :: "string \<Rightarrow> ('h \<Rightarrow> 'h) option"
  base_send_error :: "nat \<Rightarrow> 'h \<Rightarrow> 'h"

definition SimpleHTTPRequestHandler_getattr ::
    "'h library \<Rightarrow> string \<Rightarrow> ('h \<Rightarrow> 'h) option" where
  "SimpleHTTPRequestHandler_getattr lib mname =
     (if mname = ''do_GET'' then Some (base_do_GET lib) else base_do_other lib mname)"

definition DemoHandler_getattr ::
    "'a handler_scheme library \<Rightarrow> string \<Rightarrow> ('a handler_scheme \<Rightarrow> 'a handler_scheme) option" where
  "DemoHandler_getattr lib mname =
     (if mname = ''do_GET'' then Some (do_GET (base_do_GET lib))
      else SimpleHTTPRequestHandler_getattr lib mname)"

definition handle_one_request ::
    "(string \<Rightarrow> ('a handler_scheme \<Rightarrow> 'a handler_scheme) option) \<Rightarrow> (nat \<Rightarrow> 'a handler_scheme \<Rightarrow> 'a handler_scheme) \<Rightarrow>
     'a handler_scheme \<Rightarrow> 'a handler_scheme" where
  "handle_one_request getattr send_error self =
     (let mname = ''do_'' @ command self
      in case getattr mname of
           None \<Rightarrow> send_error 501 self
         | Some method \<Rightarrow> method self)"

section \<open>The base directory\<close>

text \<open>
  \<^verbatim>\<open>BASE_DIR = os.path.join(os.path.dirname(__file__), "site")\<close>, with the POSIX versions
  of the two path functions. \<open>file\<close> is the value of \<^verbatim>\<open>__file__\<close>.
\<close>

definition os_path_dirname :: "string \<Rightarrow> string" where
  "os_path_dirname p =
     (let head = rev (dropWhile (\<lambda>c. c \<noteq> CHR ''/'') (rev p))
      in if head \<noteq> [] \<and> head \<noteq> replicate (length head) CHR ''/''
         then rev (dropWhile (\<lambda>c. c = CHR ''/'') (rev head))
         else head)"

definition os_path_join :: "string \<Rightarrow> string \<Rightarrow> string" where
  "os_path_join a b =
     (if (case b of [] \<Rightarrow> False | c # _ \<Rightarrow> c = CHR ''/'') then b
      else if a = [] \<or> last a = CHR ''/'' then a @ b
      else a @ ''/'' @ b)"

definition BASE_DIR :: "string \<Rightarrow> string" where
  "BASE_DIR file = os_path_join (os_path_dirname file) ''site''"

text \<open>
  \<^verbatim>\<open>DemoHandler.__init__\<close> passes \<^verbatim>\<open>directory=BASE_DIR\<close> to the base class, whatever
  the request is. The other attributes come from the request the library has parsed.
\<close>

record request =
  request_command :: string
  request_target :: string
  request_client :: string

definition DemoHandler_init :: "string \<Rightarrow> request \<Rightarrow> handler" where
  "DemoHandler_init file req =
     \<lparr>command = request_command req, path = request_target req,
      client_address = request_client req, directory = BASE_DIR file, calls = []\<rparr>"

section \<open>Starting the server\<close>

text \<open>
  Python's exceptions, as far as \<^verbatim>\<open>run\<close> tells them apart: \<^verbatim>\<open>except Exception\<close>
  catches the instances of \<^verbatim>\<open>Exception\<close> (every socket error is an \<^verbatim>\<open>OSError\<close>),
  and not \<^verbatim>\<open>KeyboardInterrupt\<close> or \<^verbatim>\<open>SystemExit\<close>.
\<close>

datatype exn = OSError | Other_Exception | KeyboardInterrupt | SystemExit

fun isinstance_Exception :: "exn \<Rightarrow> bool" where
  "isinstance_Exception OSError = True"
| "isinstance_Exception Other_Exception = True"
| "isinstance_Exception KeyboardInterrupt = False"
| "isinstance_Exception SystemExit = False"

datatype outcome = Returns | Raises exn | Blocks

text \<open>
  What the operating system answers: whether the listening socket can be bound, what each
  socket call of \<^verbatim>\<open>get_lan_ip\<close> does, and how \<^verbatim>\<open>serve_forever\<close> ends, if it does.
\<close>

record environment =
  server_bind :: "string \<Rightarrow> int \<Rightarrow> exn option"
  socket_socket :: "exn option"
  socket_connect :: "exn option"
  socket_getsockname :: "exn + string"
  socket_close :: "exn option"
  serve_forever :: outcome

definition get_lan_ip :: "environment \<Rightarrow> exn + string" where
  "get_lan_ip env =
     (case socket_socket env of
        Some e \<Rightarrow> Inl e
      | None \<Rightarrow>
          (let ip = (case socket_connect env of
                       Some e \<Rightarrow> Inl e
                     | None \<Rightarrow> socket_getsockname env)
           in case socket_close env of
                Some e \<Rightarrow> Inl e
              | None \<Rightarrow> ip))"

record httpd =
  server_address :: "string \<times> int"
  RequestHandlerClass :: "request \<Rightarrow> handler"

definition ThreadingHTTPServer :: "string \<times> int \<Rightarrow> (request \<Rightarrow> handler) \<Rightarrow> httpd" where
  "ThreadingHTTPServer addr cls = \<lparr>server_address = addr, RequestHandlerClass = cls\<rparr>"

datatype event = Print string | Serve_forever httpd | Server_close

text \<open>Python's \<^verbatim>\<open>str\<close> of an integer, which the f-strings of the banner apply to the port.\<close>

function str_nat :: "nat \<Rightarrow> string" where
  "str_nat n =
     (if n < 10 then [''0123456789'' ! n]
      else str_nat (n div 10) @ [''0123456789'' ! (n mod 10)])"
  by pat_completeness auto
termination
  by (relation "measure id") auto

definition str_int :: "int \<Rightarrow> string" where
  "str_int i = (if i < 0 then CHR ''-'' # str_nat (nat (- i)) else str_nat (nat i))"

definition banner :: "string \<Rightarrow> int \<Rightarrow> event list" where
  "banner lan_ip port =
     [Print ''DirBuster Demo Server running on:'',
      Print (''  http://127.0.0.1:'' @ str_int port),
      Print (''  http://'' @ lan_ip @ '':'' @ str_int port @ ''  (LAN)''),
      Print ''Press Ctrl+C to stop.'']"

text \<open>
  \<^verbatim>\<open>run\<close> returns what it has printed and done, in order, and how it ends: it returns,
  an exception leaves it, or it stays in \<^verbatim>\<open>serve_forever\<close>.
\<close>

definition run :: "string \<Rightarrow> environment \<Rightarrow> string \<Rightarrow> int \<Rightarrow> event list \<times> outcome" where
  "run file env host port =
     (case server_bind env host port of
        Some e \<Rightarrow> ([], Raises e)
      | None \<Rightarrow>
          (let httpd = ThreadingHTTPServer (host, port) (DemoHandler_init file)
           in case (case get_lan_ip env of
                      Inr ip \<Rightarrow> Inr ip
                    | Inl e \<Rightarrow> if isinstance_Exception e then Inr host else Inl e) of
                Inl e \<Rightarrow> ([], Raises e)
              | Inr lan_ip \<Rightarrow>
                  (case serve_forever env of
                     Blocks \<Rightarrow> (banner lan_ip port @ [Serve_forever httpd], Blocks)
                   | Returns \<Rightarrow>
                       (banner lan_ip port @
                          [Serve_forever httpd, Server_close, Print ''Server stopped.''],
                        Returns)
                   | Raises e \<Rightarrow>
                       (banner lan_ip port @
                          [Serve_forever httpd, Server_close, Print ''Server stopped.''],
                        if e = KeyboardInterrupt then Returns else Raises e))))"

text \<open>
  The script's entry point: \<^verbatim>\<open>--host\<close> and \<^verbatim>\<open>--port\<close> are optional, with the defaults
  \<^verbatim>\<open>0.0.0.0\<close> and \<^verbatim>\<open>8000\<close>; the arguments are the values argparse has read.
\<close>

definition main :: "string \<Rightarrow> environment \<Rightarrow> string option \<Rightarrow> int option \<Rightarrow> event list \<times> outcome" where
  "main file env host port =
     run file env (case host of None \<Rightarrow> ''0.0.0.0'' | Some h \<Rightarrow> h)
                  (case port of None \<Rightarrow> 8000 | Some p \<Rightarrow> p)"

section \<open>The base class's static file handling\<close>

text \<open>
  What \<^verbatim>\<open>super().do_GET()\<close> does is code of the standard library, module
  \<^verbatim>\<open>http.server\<close> (Python 3.12): \<^verbatim>\<open>SimpleHTTPRequestHandler.do_GET\<close> with
  \<^verbatim>\<open>send_head\<close>, \<^verbatim>\<open>translate_path\<close>, \<^verbatim>\<open>list_directory\<close> and \<^verbatim>\<open>send_error\<close>. These
  methods are embedded here as they are written. The functions of other modules that they
  call and that only produce text (escape decoding, URL splitting, MIME types, dates, the
  pages of a listing or an error) are the fields of \<open>stdlib\<close>.
\<close>

record stdlib =
  unquote_escapes :: "string \<Rightarrow> string"
  urlsplit_path :: "string \<Rightarrow> string"
  urlunsplit_slash :: "string \<Rightarrow> string"
  guess_type :: "string \<Rightarrow> string"
  date_time_string :: "nat \<Rightarrow> string"
  if_modified_since :: "(string \<times> string) list \<Rightarrow> nat \<Rightarrow> bool"
  listing_page :: "string \<Rightarrow> (string \<times> bool \<times> bool) list \<Rightarrow> string"
  getfilesystemencoding :: string
  error_page :: "nat \<Rightarrow> string \<Rightarrow> string"
  repr :: "string \<Rightarrow> string"

text \<open>
  The file system as the process sees it: what \<^verbatim>\<open>os.path.isdir\<close>, \<^verbatim>\<open>os.path.isfile\<close>,
  \<^verbatim>\<open>os.path.islink\<close>, \<^verbatim>\<open>os.listdir\<close> and \<^verbatim>\<open>open(path, 'rb')\<close> answer for a path
  (\<open>None\<close> where the call raises \<^verbatim>\<open>OSError\<close>). An open file gives its bytes and the
  size and modification time that \<^verbatim>\<open>os.fstat\<close> reports.
\<close>

record open_file =
  data :: string
  st_size :: nat
  st_mtime :: nat

record filesystem =
  os_path_isdir :: "string \<Rightarrow> bool"
  os_path_isfile :: "string \<Rightarrow> bool"
  os_path_islink :: "string \<Rightarrow> bool"
  os_listdir :: "string \<Rightarrow> string list option"
  open_rb :: "string \<Rightarrow> open_file option"

text \<open>
  A handler at work has, besides the attributes above, the request headers and the file
  system it runs in. A method returns the handler with everything as it leaves it, so a
  method that wrote to the file system would return a different one.
\<close>

record running_handler = handler +
  headers :: "(string \<times> string) list"
  files :: filesystem

text \<open>String operations of Python that the library uses, on one-byte characters.\<close>

definition isspace :: "char \<Rightarrow> bool" where
  "isspace c = (of_char c \<in> {9, 10, 11, 12, 13, 28, 29, 30, 31, 32, 133, 160 :: nat})"

definition rstrip :: "string \<Rightarrow> string" where
  "rstrip s = rev (dropWhile isspace (rev s))"

definition endswith_slash :: "string \<Rightarrow> bool" where
  "endswith_slash s = (s \<noteq> [] \<and> last s = CHR ''/'')"

fun str_split :: "char \<Rightarrow> string \<Rightarrow> string list" where
  "str_split sep [] = [[]]"
| "str_split sep (c # cs) =
     (if c = sep then [] # str_split sep cs
      else (case str_split sep cs of
              [] \<Rightarrow> [[c]]
            | w # ws \<Rightarrow> (c # w) # ws))"

fun str_join :: "string \<Rightarrow> string list \<Rightarrow> string" where
  "str_join sep [] = []"
| "str_join sep [w] = w"
| "str_join sep (w # v # ws) = w @ sep @ str_join sep (v # ws)"

text \<open>\<^verbatim>\<open>posixpath.splitroot\<close> (root and tail; the drive is empty) and \<^verbatim>\<open>posixpath.normpath\<close>.\<close>

definition splitroot :: "string \<Rightarrow> string \<times> string" where
  "splitroot p =
     (if take 1 p \<noteq> ''/'' then ([], p)
      else if take 1 (drop 1 p) \<noteq> ''/'' \<or> take 1 (drop 2 p) = ''/'' then (''/'', drop 1 p)
      else (take 2 p, drop 2 p))"

fun normpath_comps :: "string \<Rightarrow> string list \<Rightarrow> string list \<Rightarrow> string list" where
  "normpath_comps initial_slashes new_comps [] = new_comps"
| "normpath_comps initial_slashes new_comps (part # parts) =
     (if part = [] \<or> part = ''.'' then normpath_comps initial_slashes new_comps parts
      else if part \<noteq> ''..'' \<or> (initial_slashes = [] \<and> new_comps = []) \<or>
              (new_comps \<noteq> [] \<and> last new_comps = ''..'')
        then normpath_comps initial_slashes (new_comps @ [part]) parts
      else if new_comps \<noteq> [] then normpath_comps initial_slashes (butlast new_comps) parts
      else normpath_comps initial_slashes new_comps parts)"

definition posixpath_normpath :: "string \<Rightarrow> string" where
  "posixpath_normpath p =
     (if p = [] then ''.''
      else (let (initial_slashes, tail) = splitroot p;
                parts = str_split CHR ''/'' tail;
                new_comps = normpath_comps initial_slashes [] parts;
                r = initial_slashes @ str_join ''/'' new_comps
            in if r = [] then ''.'' else r))"

text \<open>\<^verbatim>\<open>urllib.parse.unquote\<close> returns a string without \<^verbatim>\<open>%\<close> as it is.\<close>

definition unquote :: "stdlib \<Rightarrow> string \<Rightarrow> string" where
  "unquote lib s = (if CHR ''%'' \<notin> set s then s else unquote_escapes lib s)"

text \<open>
  \<^verbatim>\<open>translate_path\<close>: query and fragment are dropped, escapes decoded, the path
  normalised, and its components joined to \<^verbatim>\<open>self.directory\<close> one by one; a component
  that is \<^verbatim>\<open>.\<close>, \<^verbatim>\<open>..\<close> or has a directory part is skipped.
\<close>

definition translate_path :: "stdlib \<Rightarrow> 'a handler_scheme \<Rightarrow> string \<Rightarrow> string" where
  "translate_path lib self p =
     (let p = takeWhile (\<lambda>c. c \<noteq> CHR ''?'') p;
          p = takeWhile (\<lambda>c. c \<noteq> CHR ''#'') p;
          trailing_slash = endswith_slash (rstrip p);
          p = unquote lib p;
          p = posixpath_normpath p;
          words = filter (\<lambda>word. word \<noteq> []) (str_split CHR ''/'' p);
          p = foldl (\<lambda>p word.
                if os_path_dirname word \<noteq> [] \<or> word = ''.'' \<or> word = ''..'' then p
                else os_path_join p word) (directory self) words
      in if trailing_slash then p @ ''/'' else p)"

text \<open>
  \<^verbatim>\<open>send_error\<close>. The reason phrase passed to \<^verbatim>\<open>send_response\<close> is not part of the
  recorded call.
\<close>

definition send_error :: "stdlib \<Rightarrow> nat \<Rightarrow> string \<Rightarrow> 'a handler_scheme \<Rightarrow> 'a handler_scheme" where
  "send_error lib code message self =
     (let self = send_response code self;
          self = send_header ''Connection'' ''close'' self
      in if code \<ge> 200 \<and> code \<noteq> 204 \<and> code \<noteq> 205 \<and> code \<noteq> 304 then
           (let body = error_page lib code message;
                self = send_header ''Content-Type'' ''text/html;charset=utf-8'' self;
                self = send_header ''Content-Length'' (str_nat (length body)) self;
                self = end_headers self
            in if command self \<noteq> ''HEAD'' \<and> body \<noteq> [] then wfile_write body self else self)
         else end_headers self)"

text \<open>
  \<^verbatim>\<open>list_directory\<close> and \<^verbatim>\<open>send_head\<close> return the handler and the file object to copy,
  if there is one; the file object is given by the bytes it will read.
\<close>

definition list_directory ::
    "stdlib \<Rightarrow> running_handler \<Rightarrow> string \<Rightarrow> running_handler \<times> string option" where
  "list_directory lib self p =
     (case os_listdir (files self) p of
        None \<Rightarrow> (send_error lib 404 ''No permission to list directory'' self, None)
      | Some names \<Rightarrow>
          (let encoded = listing_page lib (path self)
                 (map (\<lambda>name. (name, os_path_isdir (files self) (os_path_join p name),
                                 os_path_islink (files self) (os_path_join p name))) names);
               self = send_response 200 self;
               self = send_header ''Content-type''
                        (''text/html; charset='' @ getfilesystemencoding lib) self;
               self = send_header ''Content-Length'' (str_nat (length encoded)) self;
               self = end_headers self
           in (self, Some encoded)))"

text \<open>The part of \<^verbatim>\<open>send_head\<close> from \<^verbatim>\<open>ctype = self.guess_type(path)\<close> on.\<close>

definition send_head_file ::
    "stdlib \<Rightarrow> running_handler \<Rightarrow> string \<Rightarrow> running_handler \<times> string option" where
  "send_head_file lib self p =
     (let ctype = guess_type lib p
      in if endswith_slash p then (send_error lib 404 ''File not found'' self, None)
         else (case open_rb (files self) p of
                 None \<Rightarrow> (send_error lib 404 ''File not found'' self, None)
               | Some f \<Rightarrow>
                   if if_modified_since lib (headers self) (st_mtime f) then
                     (let self = send_response 304 self;
                          self = end_headers self
                      in (self, None))
                   else
                     (let self = send_response 200 self;
                          self = send_header ''Content-type'' ctype self;
                          self = send_header ''Content-Length'' (str_nat (st_size f)) self;
                          self = send_header ''Last-Modified''
                                   (date_time_string lib (st_mtime f)) self;
                          self = end_headers self
                      in (self, Some (data f)))))"

definition send_head :: "stdlib \<Rightarrow> running_handler \<Rightarrow> running_handler \<times> string option" where
  "send_head lib self =
     (let p = translate_path lib self (path self)
      in if os_path_isdir (files self) p then
           (if \<not> endswith_slash (urlsplit_path lib (path self)) then
              (let self = send_response 301 self;
                   self = send_header ''Location'' (urlunsplit_slash lib (path self)) self;
                   self = send_header ''Content-Length'' ''0'' self;
                   self = end_headers self
               in (self, None))
            else (case find (\<lambda>index. os_path_isfile (files self) (os_path_join p index))
                         [''index.html'', ''index.htm''] of
                    Some index \<Rightarrow> send_head_file lib self (os_path_join p index)
                  | None \<Rightarrow> list_directory lib self p))
         else send_head_file lib self p)"

text \<open>
  \<^verbatim>\<open>copyfile\<close> is \<^verbatim>\<open>shutil.copyfileobj\<close>: it reads blocks of 64 KiB and writes each
  one, until a read returns nothing.
\<close>

function copyfileobj :: "nat \<Rightarrow> string \<Rightarrow> 'a handler_scheme \<Rightarrow> 'a handler_scheme" where
  "copyfileobj n source self =
     (if n = 0 \<or> source = [] then self
      else copyfileobj n (drop n source) (wfile_write (take n source) self))"
  by pat_completeness auto
termination
  by (relation "measure (\<lambda>(n, source, self). length source)") auto

declare copyfileobj.simps [simp del]

definition copyfile :: "string \<Rightarrow> 'a handler_scheme \<Rightarrow> 'a handler_scheme" where
  "copyfile source self = copyfileobj 65536 source self"

definition SimpleHTTPRequestHandler_do_GET :: "stdlib \<Rightarrow> running_handler \<Rightarrow> running_handler" where
  "SimpleHTTPRequestHandler_do_GET lib self =
     (case send_head lib self of
        (self, None) \<Rightarrow> self
      | (self, Some f) \<Rightarrow> copyfile f self)"

definition SimpleHTTPRequestHandler_do_HEAD :: "stdlib \<Rightarrow> running_handler \<Rightarrow> running_handler" where
  "SimpleHTTPRequestHandler_do_HEAD lib self = fst (send_head lib self)"

text \<open>
  The methods a handler inherits: \<^verbatim>\<open>do_GET\<close> and \<^verbatim>\<open>do_HEAD\<close>, and the 501 answer of
  \<^verbatim>\<open>handle_one_request\<close> for a method without a handler.
\<close>

definition http_server :: "stdlib \<Rightarrow> running_handler library" where
  "http_server lib =
     \<lparr>base_do_GET = SimpleHTTPRequestHandler_do_GET lib,
      base_do_other = (\<lambda>mname. if mname = ''do_HEAD''
                                 then Some (SimpleHTTPRequestHandler_do_HEAD lib) else None),
      base_send_error = (\<lambda>code self.
         send_error lib code (''Unsupported method ('' @ repr lib (command self) @ '')'') self)\<rparr>"

section \<open>Serving requests\<close>

text \<open>
  \<^verbatim>\<open>parse_request\<close> reduces a request target that starts with \<^verbatim>\<open>//\<close> to a single
  leading slash before any method sees \<^verbatim>\<open>self.path\<close>.
\<close>

definition parse_request_path :: "string \<Rightarrow> string" where
  "parse_request_path target =
     (if take 2 target = ''//'' then CHR ''/'' # dropWhile (\<lambda>c. c = CHR ''/'') target
      else target)"

record http_request = request +
  request_headers :: "(string \<times> string) list"

text \<open>
  For each request the server creates a handler of its class, which parses the request and
  runs the method for it. The handler runs in the file system as the requests before have
  left it.
\<close>

definition handle_request ::
    "stdlib \<Rightarrow> string \<Rightarrow> filesystem \<Rightarrow> http_request \<Rightarrow> running_handler" where
  "handle_request lib file fs req =
     (let h = DemoHandler_init file
                \<lparr>request_command = request_command req,
                 request_target = parse_request_path (request_target req),
                 request_client = request_client req\<rparr>;
          self = \<lparr>command = command h, path = path h, client_address = client_address h,
                  directory = directory h, calls = calls h,
                  headers = request_headers req, files = fs\<rparr>
      in handle_one_request (DemoHandler_getattr (http_server lib))
           (base_send_error (http_server lib)) self)"

fun serve ::
    "stdlib \<Rightarrow> string \<Rightarrow> filesystem \<Rightarrow> http_request list \<Rightarrow> filesystem \<times> call list list" where
  "serve lib file fs [] = (fs, [])"
| "serve lib file fs (req # reqs) =
     (let self = handle_request lib file fs req;
          (fs', responses) = serve lib file (files self) reqs
      in (fs', calls self # responses))"




section \<open>The routing policy in the specification's words\<close>



definition respond :: "nat \<Rightarrow> string \<Rightarrow> 'a handler_scheme \<Rightarrow> 'a handler_scheme" where
  "respond code body self =
     self\<lparr>calls := calls self @
       [Send_response code, Send_header ''Content-Type'' ''text/plain; charset=utf-8'',
        End_headers, Wfile_write body]\<rparr>"




section \<open>Example values\<close>

text \<open>Concrete handlers, requests, libraries and environments, used to run the model.\<close>

definition example_handler :: "string \<Rightarrow> string \<Rightarrow> handler" where
  "example_handler method target =
     \<lparr>command = method, path = target, client_address = ''192.168.1.7'',
      directory = ''/srv/demo/site'', calls = []\<rparr>"

definition example_request :: "string \<Rightarrow> string \<Rightarrow> request" where
  "example_request method target =
     \<lparr>request_command = method, request_target = target, request_client = ''192.168.1.7''\<rparr>"

definition example_library :: "handler library" where
  "example_library =
     \<lparr>base_do_GET = send_response 404,
      base_do_other = (\<lambda>mname. if mname = ''do_HEAD'' then Some (send_response 301) else None),
      base_send_error = send_response\<rparr>"

definition example_environment :: "exn option \<Rightarrow> environment" where
  "example_environment connect_result =
     \<lparr>server_bind = (\<lambda>host port. None), socket_socket = None,
      socket_connect = connect_result, socket_getsockname = Inr ''192.168.1.20'',
      socket_close = None, serve_forever = Raises KeyboardInterrupt\<rparr>"

text \<open>
  A library and a file system to run the base class in. The fields of \<open>example_stdlib\<close>
  stand in for the library's text-producing functions; the site has an index page and a
  directory \<^verbatim>\<open>private\<close> with one file.
\<close>

definition example_stdlib :: stdlib where
  "example_stdlib =
     \<lparr>unquote_escapes = (\<lambda>s. s),
      urlsplit_path = (\<lambda>url. takeWhile (\<lambda>c. c \<noteq> CHR ''?'' \<and> c \<noteq> CHR ''#'') url),
      urlunsplit_slash = (\<lambda>url. url @ ''/''),
      guess_type = (\<lambda>p. ''application/octet-stream''),
      date_time_string = (\<lambda>t. ''Thu, 01 Jan 1970 00:00:00 GMT''),
      if_modified_since = (\<lambda>hs t. False),
      listing_page = (\<lambda>p entries. concat (map fst entries)),
      getfilesystemencoding = ''utf-8'',
      error_page = (\<lambda>code message. message),
      repr = (\<lambda>s. [CHR 0x27] @ s @ [CHR 0x27])\<rparr>"

definition example_files :: filesystem where
  "example_files =
     \<lparr>os_path_isdir = (\<lambda>p. p \<in> {''/srv/demo/site'', ''/srv/demo/site/'',
                               ''/srv/demo/site/private'', ''/srv/demo/site/private/''}),
      os_path_isfile = (\<lambda>p. p \<in> {''/srv/demo/site/index.html'',
                                ''/srv/demo/site/private/secrets.txt''}),
      os_path_islink = (\<lambda>p. False),
      os_listdir = (\<lambda>p.
        if p \<in> {''/srv/demo/site'', ''/srv/demo/site/''} then Some [''index.html'', ''private'']
        else if p \<in> {''/srv/demo/site/private'', ''/srv/demo/site/private/''}
          then Some [''secrets.txt'']
        else None),
      open_rb = (\<lambda>p.
        if p = ''/srv/demo/site/index.html''
          then Some \<lparr>data = ''<h1>Demo</h1>'', st_size = 13, st_mtime = 0\<rparr>
        else if p = ''/srv/demo/site/private/secrets.txt''
          then Some \<lparr>data = ''top secret'', st_size = 10, st_mtime = 0\<rparr>
        else None)\<rparr>"

definition example_http_request :: "string \<Rightarrow> string \<Rightarrow> http_request" where
  "example_http_request method target =
     \<lparr>request_command = method, request_target = target, request_client = ''192.168.1.7'',
      request_headers = []\<rparr>"

section \<open>Which paths the pattern accepts\<close>

lemma re_compile_private:
  "re_compile ''/private/?'' =
     [Lit CHR ''/'', Lit CHR ''p'', Lit CHR ''r'', Lit CHR ''i'', Lit CHR ''v'',
      Lit CHR ''a'', Lit CHR ''t'', Lit CHR ''e'', Opt CHR ''/'']"
  by simp

lemma re_match_lits: "re_match (map Lit w @ r) s = (\<exists>t. s = w @ t \<and> re_match r t)"
  by (induction w arbitrary: s) (auto split: list.splits)

lemma re_match_opt_last: "re_match [Opt c] s = (s = [c] \<or> s = [])"
  by (auto split: list.splits)

lemma re_fullmatch_private:
  "re_fullmatch ''/private/?'' s = (s = ''/private'' \<or> s = ''/private/'')"
proof -
  have "re_compile ''/private/?'' = map Lit ''/private'' @ [Opt CHR ''/'']"
    by simp
  then have "re_fullmatch ''/private/?'' s =
      (\<exists>t. s = ''/private'' @ t \<and> (t = ''/'' \<or> t = []))"
    unfolding re_fullmatch_def by (simp only: re_match_lits re_match_opt_last)
  then show ?thesis by auto
qed

section \<open>The handler's three cases\<close>

lemma do_GET_cases:
  "do_GET super_do_GET self =
     (if path self = ''/private'' \<or> path self = ''/private/'' then
        respond 403 ''403 Forbidden: Directory listing is disabled.'' self
      else if path self = ''/health'' then respond 200 ''ok'' self
      else super_do_GET self)"
  by (simp add: do_GET_def re_fullmatch_private respond_def send_response_def send_header_def
      end_headers_def wfile_write_def Let_def del: re_compile.simps re_match.simps)


text \<open>
  C1. A GET request whose path is exactly \<^verbatim>\<open>/private\<close> or \<^verbatim>\<open>/private/\<close> is answered with
  status 403, the header \<^verbatim>\<open>Content-Type: text/plain; charset=utf-8\<close> and the body
  \<^verbatim>\<open>403 Forbidden: Directory listing is disabled.\<close>; the answer is the same for every
  base-class method, so nothing is delegated to static file resolution.
\<close>

theorem private_forbidden:
  assumes "path self = ''/private'' \<or> path self = ''/private/''"
  shows "do_GET super_do_GET self =
         self\<lparr>calls := calls self @
           [Send_response 403, Send_header ''Content-Type'' ''text/plain; charset=utf-8'',
            End_headers, Wfile_write ''403 Forbidden: Directory listing is disabled.'']\<rparr>"
  using assms by (simp add: do_GET_cases respond_def)

theorem private_forbidden_witness:
  "path (example_handler ''GET'' ''/private/'') = ''/private/'' \<and>
   calls (do_GET (send_response 404) (example_handler ''GET'' ''/private/'')) =
     [Send_response 403, Send_header ''Content-Type'' ''text/plain; charset=utf-8'',
      End_headers, Wfile_write ''403 Forbidden: Directory listing is disabled.'']"
proof -
  have h: "path (example_handler ''GET'' ''/private/'') = ''/private'' \<or>
           path (example_handler ''GET'' ''/private/'') = ''/private/''"
    by (simp add: example_handler_def)
  show ?thesis
    using private_forbidden [OF h, of "send_response 404"] by (simp add: example_handler_def)
qed

section \<open>What the base class answers\<close>









lemma copyfileobj_files: "files (copyfileobj n source self) = files self"
proof (induction n source self rule: copyfileobj.induct)
  case (1 n source self)
  then show ?case
    by (subst copyfileobj.simps) (simp add: wfile_write_def)
qed









lemma handle_request_GET:
  assumes "request_command req = ''GET''"
  shows "handle_request lib file fs req =
     do_GET (SimpleHTTPRequestHandler_do_GET lib)
       \<lparr>command = ''GET'', path = parse_request_path (request_target req),
        client_address = request_client req,
        directory = os_path_join (os_path_dirname file) ''site'', calls = [],
        headers = request_headers req, files = fs\<rparr>"
  using assms
  by (simp add: handle_request_def handle_one_request_def DemoHandler_getattr_def
      http_server_def DemoHandler_init_def BASE_DIR_def Let_def)




text \<open>
  C4. A GET request whose path is exactly \<^verbatim>\<open>/health\<close> is answered with status 200, the
  header \<^verbatim>\<open>Content-Type: text/plain; charset=utf-8\<close> and the body \<^verbatim>\<open>ok\<close>, whatever the
  base-class method is: nothing is delegated.
\<close>

theorem health_ok:
  assumes "path self = ''/health''"
  shows "do_GET super_do_GET self =
         self\<lparr>calls := calls self @
           [Send_response 200, Send_header ''Content-Type'' ''text/plain; charset=utf-8'',
            End_headers, Wfile_write ''ok'']\<rparr>"
  using assms by (simp add: do_GET_cases respond_def)

theorem health_ok_witness:
  "path (example_handler ''GET'' ''/health'') = ''/health'' \<and>
   calls (do_GET (send_response 404) (example_handler ''GET'' ''/health'')) =
     [Send_response 200, Send_header ''Content-Type'' ''text/plain; charset=utf-8'',
      End_headers, Wfile_write ''ok'']"
proof -
  have h: "path (example_handler ''GET'' ''/health'') = ''/health''"
    by (simp add: example_handler_def)
  show ?thesis
    using health_ok [OF h, of "send_response 404"] by (simp add: example_handler_def)
qed



section \<open>No request changes what a later one sees\<close>

lemma files_send_error: "files (send_error lib code message self) = files self"
  by (simp add: send_error_def Let_def send_response_def send_header_def end_headers_def
      wfile_write_def)

lemma files_send_head_file: "files (fst (send_head_file lib self p)) = files self"
  by (simp add: send_head_file_def Let_def files_send_error send_response_def send_header_def
      end_headers_def split: option.split)

lemma files_list_directory: "files (fst (list_directory lib self p)) = files self"
  by (simp add: list_directory_def Let_def files_send_error send_response_def send_header_def
      end_headers_def split: option.split)

lemma files_send_head: "files (fst (send_head lib self)) = files self"
  by (simp add: send_head_def Let_def files_send_head_file files_list_directory
      send_response_def send_header_def end_headers_def split: option.split)

lemma files_base_do_GET: "files (SimpleHTTPRequestHandler_do_GET lib self) = files self"
proof (cases "send_head lib self")
  case (Pair self' f)
  with files_send_head [of lib self] have "files self' = files self"
    by simp
  with Pair show ?thesis
    by (cases f) (simp_all add: SimpleHTTPRequestHandler_do_GET_def copyfile_def
        copyfileobj_files)
qed

lemma files_do_GET: "files (do_GET (SimpleHTTPRequestHandler_do_GET lib) self) = files self"
  by (simp add: do_GET_cases respond_def files_base_do_GET)

lemma files_handle_request: "files (handle_request lib file fs req) = fs"
  by (simp add: handle_request_def handle_one_request_def DemoHandler_getattr_def
      SimpleHTTPRequestHandler_getattr_def http_server_def Let_def files_do_GET
      SimpleHTTPRequestHandler_do_HEAD_def files_send_head files_send_error)

lemma serve_unchanged:
  "serve lib file fs reqs = (fs, map (\<lambda>req. calls (handle_request lib file fs req)) reqs)"
  by (induction reqs) (simp_all add: files_handle_request)

text \<open>
  C6. The server hands each request the file system as the requests before have left it.
  Every request, whatever its method, leaves it as it found it, so the response to a
  request is the one it would get alone, after any sequence of earlier requests. For GET
  the response is a function of the request path: the fixed 403 response for
  \<^verbatim>\<open>/private\<close> and \<^verbatim>\<open>/private/\<close>, the fixed 200 response for \<^verbatim>\<open>/health\<close>, and otherwise
  what the base class answers for that path, the request headers and the unchanged files.
\<close>

theorem requests_leave_no_state:
  "serve lib file fs reqs = (fs, map (\<lambda>req. calls (handle_request lib file fs req)) reqs) \<and>
   (request_command req = ''GET'' \<longrightarrow>
      calls (handle_request lib file fs req) =
        (let p = parse_request_path (request_target req)
         in if p = ''/private'' \<or> p = ''/private/'' then
              [Send_response 403, Send_header ''Content-Type'' ''text/plain; charset=utf-8'',
               End_headers, Wfile_write ''403 Forbidden: Directory listing is disabled.'']
            else if p = ''/health'' then
              [Send_response 200, Send_header ''Content-Type'' ''text/plain; charset=utf-8'',
               End_headers, Wfile_write ''ok'']
            else calls (SimpleHTTPRequestHandler_do_GET lib
                   \<lparr>command = ''GET'', path = p, client_address = request_client req,
                    directory = os_path_join (os_path_dirname file) ''site'', calls = [],
                    headers = request_headers req, files = fs\<rparr>)))"
proof -
  have "request_command req = ''GET'' \<Longrightarrow>
      calls (handle_request lib file fs req) =
        (let p = parse_request_path (request_target req)
         in if p = ''/private'' \<or> p = ''/private/'' then
              [Send_response 403, Send_header ''Content-Type'' ''text/plain; charset=utf-8'',
               End_headers, Wfile_write ''403 Forbidden: Directory listing is disabled.'']
            else if p = ''/health'' then
              [Send_response 200, Send_header ''Content-Type'' ''text/plain; charset=utf-8'',
               End_headers, Wfile_write ''ok'']
            else calls (SimpleHTTPRequestHandler_do_GET lib
                   \<lparr>command = ''GET'', path = p, client_address = request_client req,
                    directory = os_path_join (os_path_dirname file) ''site'', calls = [],
                    headers = request_headers req, files = fs\<rparr>))"
    by (simp add: handle_request_GET do_GET_cases respond_def Let_def)
  with serve_unchanged [of lib "file" fs reqs] show ?thesis
    by blast
qed

theorem requests_leave_no_state_witness:
  "request_command (example_http_request ''GET'' ''//private'') = ''GET'' \<and>
   fst (serve example_stdlib ''/srv/demo/server.py'' example_files
          [example_http_request ''GET'' ''/private/secrets.txt'',
           example_http_request ''POST'' ''/health'',
           example_http_request ''GET'' ''//private'']) = example_files \<and>
   calls (handle_request example_stdlib ''/srv/demo/server.py'' example_files
            (example_http_request ''GET'' ''//private'')) =
     [Send_response 403, Send_header ''Content-Type'' ''text/plain; charset=utf-8'',
      End_headers, Wfile_write ''403 Forbidden: Directory listing is disabled.'']"
proof -
  let ?req = "example_http_request ''GET'' ''//private''"
  let ?reqs = "[example_http_request ''GET'' ''/private/secrets.txt'',
           example_http_request ''POST'' ''/health'', ?req]"
  note no_state = requests_leave_no_state [of example_stdlib "''/srv/demo/server.py''"
      example_files ?reqs ?req]
  have g: "request_command ?req = ''GET''"
    by (simp add: example_http_request_def)
  have p: "parse_request_path (request_target ?req) = ''/private''"
    by (simp add: example_http_request_def parse_request_path_def)
  from no_state [THEN conjunct1]
  have "fst (serve example_stdlib ''/srv/demo/server.py'' example_files ?reqs) = example_files"
    by simp
  moreover from no_state [THEN conjunct2, rule_format, OF g]
  have "calls (handle_request example_stdlib ''/srv/demo/server.py'' example_files ?req) =
     [Send_response 403, Send_header ''Content-Type'' ''text/plain; charset=utf-8'',
      End_headers, Wfile_write ''403 Forbidden: Directory listing is disabled.'']"
    by (simp only: p Let_def) simp
  ultimately show ?thesis
    using g by simp
qed

text \<open>
  C8. The rules look at the raw request target. When the path component is
  \<^verbatim>\<open>/private\<close>, \<^verbatim>\<open>/private/\<close> or \<^verbatim>\<open>/health\<close> and a query string follows it, neither the
  403 rule nor the health rule matches, and the request goes to the base class.
\<close>

theorem query_string_falls_through:
  assumes "p = ''/private'' \<or> p = ''/private/'' \<or> p = ''/health''"
    and "path self = p @ ''?'' @ q"
  shows "\<not> re_fullmatch ''/private/?'' (path self) \<and> path self \<noteq> ''/health'' \<and>
         do_GET super_do_GET self = super_do_GET self"
  using assms by (auto simp add: do_GET_cases re_fullmatch_private)

theorem query_string_falls_through_witness:
  "path (example_handler ''GET'' ''/private?x=1'') = ''/private'' @ ''?'' @ ''x=1'' \<and>
   calls (do_GET (send_response 404) (example_handler ''GET'' ''/private?x=1'')) =
     [Send_response 404]"
proof -
  have a: "''/private'' = ''/private'' \<or> ''/private'' = ''/private/'' \<or>
           ''/private'' = ''/health''"
    by simp
  have h: "path (example_handler ''GET'' ''/private?x=1'') = ''/private'' @ ''?'' @ ''x=1''"
    by (simp add: example_handler_def)
  show ?thesis
    using query_string_falls_through [OF a h, of "send_response 404"]
    by (simp add: example_handler_def send_response_def)
qed

text \<open>
  C9. Only \<^verbatim>\<open>do_GET\<close> is overridden. For every request method other than GET the handler
  class dispatches exactly as its base class does, so the canned 403 and 200 responses are
  not produced and the library's own behaviour answers the request.
\<close>

theorem override_only_for_GET:
  assumes "command self \<noteq> ''GET''"
  shows "handle_one_request (DemoHandler_getattr lib) (base_send_error lib) self =
         handle_one_request (SimpleHTTPRequestHandler_getattr lib) (base_send_error lib) self"
  using assms by (simp add: handle_one_request_def DemoHandler_getattr_def)

theorem override_only_for_GET_witness:
  "command (example_handler ''HEAD'' ''/private'') \<noteq> ''GET'' \<and>
   calls (handle_one_request (DemoHandler_getattr example_library)
            (base_send_error example_library) (example_handler ''HEAD'' ''/private'')) =
     [Send_response 301]"
proof -
  have h: "command (example_handler ''HEAD'' ''/private'') \<noteq> ''GET''"
    by (simp add: example_handler_def)
  have b: "calls (handle_one_request (SimpleHTTPRequestHandler_getattr example_library)
            (base_send_error example_library) (example_handler ''HEAD'' ''/private'')) =
     [Send_response 301]"
    by (simp add: handle_one_request_def SimpleHTTPRequestHandler_getattr_def
        example_library_def example_handler_def send_response_def)
  show ?thesis
    using h b override_only_for_GET [OF h, of example_library] by simp
qed

section \<open>Startup\<close>



lemma run_serves:
  "Serve_forever srv \<in> set (fst (run file env host port)) \<Longrightarrow>
   srv = ThreadingHTTPServer (host, port) (DemoHandler_init file)"
  by (auto simp add: run_def banner_def Let_def
      split: option.splits sum.splits outcome.splits if_splits)




text \<open>
  For a script \<^verbatim>\<open>d/name\<close> the base directory is \<^verbatim>\<open>d/site\<close>, the directory \<^verbatim>\<open>site\<close>
  beside the script.
\<close>

lemma BASE_DIR_beside_script:
  assumes "CHR ''/'' \<notin> set name" and "d \<noteq> []" and "last d \<noteq> CHR ''/''"
  shows "BASE_DIR (d @ ''/'' @ name) = d @ ''/site''"
proof -
  have "dropWhile (\<lambda>c. c \<noteq> CHR ''/'') (rev name @ CHR ''/'' # rev d) = CHR ''/'' # rev d"
    using assms(1) by (simp add: dropWhile_append)
  moreover have "d @ ''/'' \<noteq> replicate (Suc (length d)) CHR ''/''"
  proof
    assume "d @ ''/'' = replicate (Suc (length d)) CHR ''/''"
    then have "set d \<subseteq> {CHR ''/''}"
      by (metis Un_upper1 set_append set_replicate_conv_if subset_insertI2 insert_absorb2
          subset_refl)
    with assms(2,3) show False
      by (metis last_in_set singletonD subsetD)
  qed
  moreover have "dropWhile (\<lambda>c. c = CHR ''/'') (rev d) = rev d"
    using assms(2,3) by (cases "rev d") (auto simp: last_rev)
  ultimately have "os_path_dirname (d @ ''/'' @ name) = d"
    by (simp add: os_path_dirname_def Let_def)
  then show ?thesis
    using assms(2,3) by (simp add: BASE_DIR_def os_path_join_def)
qed

text \<open>
  C10. Whatever \<^verbatim>\<open>--host\<close> and \<^verbatim>\<open>--port\<close> are, the server that \<^verbatim>\<open>main\<close> starts
  listens on that host and port, and every handler it creates serves from the directory
  \<^verbatim>\<open>site\<close> joined to the directory of the script; \<^verbatim>\<open>do_GET\<close> either hands that
  handler to the base class as it is or answers without changing its directory.
\<close>

theorem base_directory_fixed:
  assumes "Serve_forever srv \<in> set (fst (main file env host port))"
  shows "server_address srv =
           (case host of None \<Rightarrow> ''0.0.0.0'' | Some h \<Rightarrow> h,
            case port of None \<Rightarrow> 8000 | Some p \<Rightarrow> p) \<and>
         directory (RequestHandlerClass srv req) =
           os_path_join (os_path_dirname file) ''site'' \<and>
         (do_GET super_do_GET (RequestHandlerClass srv req) =
            super_do_GET (RequestHandlerClass srv req) \<or>
          directory (do_GET super_do_GET (RequestHandlerClass srv req)) =
            os_path_join (os_path_dirname file) ''site'')"
proof -
  from assms have "srv = ThreadingHTTPServer
      (case host of None \<Rightarrow> ''0.0.0.0'' | Some h \<Rightarrow> h,
       case port of None \<Rightarrow> 8000 | Some p \<Rightarrow> p) (DemoHandler_init file)"
    unfolding main_def by (rule run_serves)
  then show ?thesis
    by (simp add: ThreadingHTTPServer_def DemoHandler_init_def BASE_DIR_def do_GET_cases
        respond_def)
qed

theorem base_directory_fixed_witness:
  "Serve_forever
     (ThreadingHTTPServer (''127.0.0.1'', 9000) (DemoHandler_init ''/srv/demo/server.py''))
     \<in> set (fst (main ''/srv/demo/server.py'' (example_environment None)
                  (Some ''127.0.0.1'') (Some 9000))) \<and>
   directory (DemoHandler_init ''/srv/demo/server.py'' (example_request ''GET'' ''/index.html'')) =
     ''/srv/demo/site''"
proof -
  let ?srv = "ThreadingHTTPServer (''127.0.0.1'', 9000) (DemoHandler_init ''/srv/demo/server.py'')"
  have h: "Serve_forever ?srv \<in> set (fst (main ''/srv/demo/server.py'' (example_environment None)
                  (Some ''127.0.0.1'') (Some 9000)))"
    by (simp add: main_def run_def example_environment_def get_lan_ip_def Let_def)
  have d: "os_path_join (os_path_dirname ''/srv/demo/server.py'') ''site'' = ''/srv/demo/site''"
    by (simp add: os_path_join_def os_path_dirname_def)
  show ?thesis
    using h base_directory_fixed [OF h, of "example_request ''GET'' ''/index.html''" id]
    by (simp add: ThreadingHTTPServer_def d)
qed

end
